theory Spec2Isabelle
  imports Complex_Main
begin

unbundle bit_operations_syntax

section \<open>Python values shared by both source files\<close>

text \<open>
  Python integers are unbounded and their bitwise operators act on the infinite two's
  complement representation; HOL's \<open>int\<close> with \<open>AND\<close> and \<open>OR\<close> is the same
  thing. Exceptions are values: a function that can raise returns the exception next to
  (or instead of) its result.
\<close>

datatype py_error =
    ValueError
  | OverflowError
  | CalledProcessError
  | UnicodeError
  | OSError
  | SystemExit
  | AttributeError

section \<open>examples/wavetablemodstep.py\<close>

subsection \<open>The MIDI output as a trace of library calls\<close>

text \<open>
  The class \<open>Midi\<close> wraps one \<open>rtmidi.MidiOut\<close> object and only ever calls
  \<open>open_port\<close>, \<open>send_message\<close> and \<open>close_port\<close> on it; between messages the
  script calls \<open>time.sleep\<close>. These library calls are the observable behaviour of the
  script, so a run is modelled by the list of calls it makes, in order, together with
  the exception that ended it (if any). A MIDI message is the list of integers handed
  to \<open>send_message\<close>. The library calls themselves are taken to return normally.
\<close>

datatype event =
    OpenPort int
  | SendMessage "int list"
  | Sleep real
  | ClosePort

type_synonym run = "event list \<times> py_error option"

fun sent_messages :: "event list \<Rightarrow> int list list" where
  "sent_messages [] = []"
| "sent_messages (SendMessage m # es) = m # sent_messages es"
| "sent_messages (_ # es) = sent_messages es"

subsection \<open>The builtin \<open>xrange\<close>\<close>

text \<open>
  The script is Python 2 (\<open>xrange\<close>). \<open>xrange(lo, hi, step)\<close> converts its
  arguments to C \<open>long\<close> and raises \<open>OverflowError\<close> for one that does not fit,
  raises \<open>ValueError\<close> for \<open>step = 0\<close>, and otherwise yields \<open>lo + k * step\<close> for
  \<open>k\<close> below the length computed first. The largest C \<open>long\<close>, \<open>sys.maxint\<close>,
  depends on the platform and is a parameter; it is at least \<open>2^31 - 1\<close> everywhere, so
  the literal bounds 0 and 128 of the only call site always fit and only \<open>step\<close> is
  checked.
\<close>

definition xrange_len :: "int \<Rightarrow> int \<Rightarrow> int \<Rightarrow> nat" where
  "xrange_len lo hi step =
     (if 0 < step then (if lo < hi then nat ((hi - lo - 1) div step + 1) else 0)
      else (if hi < lo then nat ((lo - hi - 1) div (- step) + 1) else 0))"

definition xrange :: "int \<Rightarrow> int \<Rightarrow> int \<Rightarrow> int \<Rightarrow> py_error + int list" where
  "xrange maxint lo hi step =
     (if step < - maxint - 1 \<or> maxint < step then Inl OverflowError
      else if step = 0 then Inl ValueError
      else Inr (map (\<lambda>k. lo + int k * step) [0..<xrange_len lo hi step]))"

subsection \<open>class \<open>Midi\<close>\<close>

definition Midi_init :: "int \<Rightarrow> event list" where
  "Midi_init port = [OpenPort port]"

text \<open>
  \<open>play_stepping(self, note, dur=0.2, step=1, vel=64, rvel=None, ch=0)\<close>. The Note On
  is sent before \<open>xrange\<close> is evaluated, so it is part of the trace even when
  \<open>xrange\<close> raises; the controller value \<open>i\<close> is sent as it comes from \<open>xrange\<close>,
  unmasked.
\<close>

definition play_stepping ::
  "int \<Rightarrow> int \<Rightarrow> real \<Rightarrow> int \<Rightarrow> int \<Rightarrow> int option \<Rightarrow> int \<Rightarrow> run" where
  "play_stepping maxint note dur step vel rvel ch =
     (let note_on = SendMessage [0x90 OR (ch AND 0xF), note AND 0x7F, vel AND 0x7F] in
      case xrange maxint 0 128 step of
        Inl e \<Rightarrow> ([note_on], Some e)
      | Inr steps \<Rightarrow>
          ([note_on]
           @ concat (map (\<lambda>i. [SendMessage [0xB0 OR (ch AND 0xF), 1, i], Sleep dur]) steps)
           @ [SendMessage [0x80 OR (ch AND 0xF), note AND 0x7F,
                (case rvel of Some r \<Rightarrow> r | None \<Rightarrow> vel) AND 0x7F]],
           None))"

definition reset_controllers :: "int \<Rightarrow> event list" where
  "reset_controllers ch = [SendMessage [0xB0 OR (ch AND 0xF), 121, 0]]"

definition set_wavetable :: "int \<Rightarrow> int \<Rightarrow> event list" where
  "set_wavetable wt ch = [SendMessage [0xB0 OR (ch AND 0xF), 70, wt AND 0x7F]]"

definition close :: "event list" where
  "close = [ClosePort]"

subsection \<open>The main program\<close>

text \<open>
  The command line as \<open>argparse\<close> reads it: each option is absent or holds the value
  its \<open>type=\<close> conversion produced. \<open>parse_args\<close> fills in the defaults of lines
  60 to 69; \<open>--wavetable\<close> has none and stays \<open>None\<close>.
\<close>

record cmdline =
  opt_channel :: "int option"
  opt_device :: "int option"
  opt_length :: "real option"
  opt_note :: "int option"
  opt_wavetable :: "int option"

record args =
  channel :: int
  device :: int
  length_arg :: real
  note_arg :: int
  wavetable :: "int option"

definition parse_args :: "cmdline \<Rightarrow> args" where
  "parse_args c =
     \<lparr> channel = (case opt_channel c of Some v \<Rightarrow> v | None \<Rightarrow> 0),
       device = (case opt_device c of Some v \<Rightarrow> v | None \<Rightarrow> 0),
       length_arg = (case opt_length c of Some v \<Rightarrow> v | None \<Rightarrow> 0.3),
       note_arg = (case opt_note c of Some v \<Rightarrow> v | None \<Rightarrow> 60),
       wavetable = opt_wavetable c \<rparr>"

text \<open>
  Lines 73 to 82. \<open>if args.wavetable:\<close> is Python truthiness: false for \<open>None\<close> and
  for 0. An exception raised by \<open>play_stepping\<close> ends the program there.
\<close>

definition main_program :: "int \<Rightarrow> args \<Rightarrow> run" where
  "main_program maxint a =
     (let m = Midi_init (device a);
          wt = (case wavetable a of
                  Some w \<Rightarrow> if w \<noteq> 0 then set_wavetable (w - 1) (channel a - 1) @ [Sleep 0.1]
                            else []
                | None \<Rightarrow> []);
          r1 = reset_controllers (channel a - 1);
          (ps, err) = play_stepping maxint (note_arg a) (length_arg a) 2 64 None (channel a - 1)
      in case err of
           Some e \<Rightarrow> (m @ wt @ r1 @ ps, Some e)
         | None \<Rightarrow> (m @ wt @ r1 @ ps @ reset_controllers (channel a - 1) @ close, None))"

subsection \<open>Notions used in the statements\<close>

text \<open>
  A Control Change message has the status byte \<open>0xBn\<close>; its second byte is the
  controller number. \<open>controller_numbers\<close> lists the controller numbers of the
  Control Change messages of a trace, in order.
\<close>

definition controller_numbers :: "event list \<Rightarrow> int list" where
  "controller_numbers tr =
     map (\<lambda>m. m ! 1) (filter (\<lambda>m. hd m AND 0xF0 = 0xB0) (sent_messages tr))"

text \<open>The command line without any option.\<close>

definition no_options :: cmdline where
  "no_options =
     \<lparr> opt_channel = None, opt_device = None, opt_length = None, opt_note = None,
       opt_wavetable = None \<rparr>"

section \<open>setup.py\<close>

subsection \<open>\<open>distutils.version.StrictVersion\<close>\<close>

text \<open>
  A \<open>StrictVersion\<close> holds \<open>version\<close>, a tuple of three numbers, and
  \<open>prerelease\<close>, \<open>None\<close> or a pair of the letter \<open>a\<close> or \<open>b\<close> and a number.
  \<open>parse\<close> matches the regular expression
  \<^verbatim>\<open>^(\d+) \. (\d+) (\. (\d+))? ([ab](\d+))?$\<close> (verbose mode, so the blanks do not
  count; \<^verbatim>\<open>\d\<close> is an ASCII digit; \<^verbatim>\<open>$\<close> matches at the end of the string
  and before a newline that ends it) and raises \<open>ValueError\<close> when it does not match.
  The character classes that follow one another are disjoint, so matching greedily from
  the left is the whole search.
\<close>

record StrictVersion =
  version :: "nat \<times> nat \<times> nat"
  prerelease :: "(char \<times> nat) option"

definition is_digit :: "char \<Rightarrow> bool" where
  "is_digit c = (c \<in> set ''0123456789'')"

definition int_of_digits :: "string \<Rightarrow> nat" where
  "int_of_digits ds = foldl (\<lambda>n c. 10 * n + (of_char c - 48)) 0 ds"

definition at_end :: "string \<Rightarrow> bool" where
  "at_end s = (s = [] \<or> s = [CHR 0x0A])"

definition opt_patch :: "string \<Rightarrow> string option \<times> string" where
  "opt_patch s =
     (case s of
        c # r \<Rightarrow>
          if c = CHR ''.'' \<and> takeWhile is_digit r \<noteq> []
          then (Some (takeWhile is_digit r), dropWhile is_digit r)
          else (None, s)
      | [] \<Rightarrow> (None, s))"

definition opt_prerelease :: "string \<Rightarrow> (char \<times> string) option \<times> string" where
  "opt_prerelease s =
     (case s of
        c # r \<Rightarrow>
          if (c = CHR ''a'' \<or> c = CHR ''b'') \<and> takeWhile is_digit r \<noteq> []
          then (Some (c, takeWhile is_digit r), dropWhile is_digit r)
          else (None, s)
      | [] \<Rightarrow> (None, s))"

definition parse :: "string \<Rightarrow> py_error + StrictVersion" where
  "parse vstring =
     (let major = takeWhile is_digit vstring; r1 = dropWhile is_digit vstring in
      if major = [] then Inl ValueError
      else case r1 of
        [] \<Rightarrow> Inl ValueError
      | c # r2 \<Rightarrow>
          if c \<noteq> CHR ''.'' then Inl ValueError
          else
            let minor = takeWhile is_digit r2; r3 = dropWhile is_digit r2 in
            if minor = [] then Inl ValueError
            else
              let (patch, r4) = opt_patch r3;
                  (pre, r5) = opt_prerelease r4
              in if \<not> at_end r5 then Inl ValueError
                 else Inr \<lparr> version =
                             (case patch of
                                Some p \<Rightarrow> (int_of_digits major, int_of_digits minor, int_of_digits p)
                              | None \<Rightarrow> (int_of_digits major, int_of_digits minor, 0)),
                           prerelease =
                             (case pre of
                                Some (l, n) \<Rightarrow> Some (l, int_of_digits n)
                              | None \<Rightarrow> None) \<rparr>)"

text \<open>
  The constructor parses only a non-empty string: \<open>StrictVersion('')\<close> is an object
  without \<open>version\<close>, here \<open>None\<close>, and reading its version raises
  \<open>AttributeError\<close>.
\<close>

definition StrictVersion_init :: "string \<Rightarrow> py_error + StrictVersion option" where
  "StrictVersion_init vstring =
     (if vstring = [] then Inr None
      else case parse vstring of Inl e \<Rightarrow> Inl e | Inr v \<Rightarrow> Inr (Some v))"

text \<open>
  Comparison (\<open>_cmp\<close>; \<open>__cmp__\<close> in Python 2): the version tuples decide when they
  differ, in the lexicographic order of tuples; with equal tuples a prerelease is
  smaller than the release, and two prereleases compare as pairs.
\<close>

fun tuple_less :: "nat \<times> nat \<times> nat \<Rightarrow> nat \<times> nat \<times> nat \<Rightarrow> bool" where
  "tuple_less (a, b, c) (a', b', c') = (a < a' \<or> (a = a' \<and> (b < b' \<or> (b = b' \<and> c < c'))))"

fun prerelease_less :: "char \<times> nat \<Rightarrow> char \<times> nat \<Rightarrow> bool" where
  "prerelease_less (l, n) (l', n') =
     ((of_char l :: nat) < of_char l' \<or> (l = l' \<and> n < n'))"

definition cmp_version :: "StrictVersion \<Rightarrow> StrictVersion \<Rightarrow> int" where
  "cmp_version self other =
     (if version self \<noteq> version other
      then (if tuple_less (version self) (version other) then - 1 else 1)
      else case (prerelease self, prerelease other) of
             (None, None) \<Rightarrow> 0
           | (Some p, None) \<Rightarrow> - 1
           | (None, Some q) \<Rightarrow> 1
           | (Some p, Some q) \<Rightarrow> if p = q then 0 else if prerelease_less p q then - 1 else 1)"

definition version_ge :: "StrictVersion \<Rightarrow> StrictVersion \<Rightarrow> bool" where
  "version_ge self other = (0 \<le> cmp_version self other)"

text \<open>
  Lines 37 and 38 build the two minima with \<open>StrictVersion('0.125.0')\<close> and
  \<open>StrictVersion('1.9.11')\<close>; they are written here as the objects these calls
  yield (\<open>parse_min_versions\<close> below).
\<close>

definition JACK1_MIN_VERSION :: StrictVersion where
  "JACK1_MIN_VERSION = \<lparr> version = (0, 125, 0), prerelease = None \<rparr>"

definition JACK2_MIN_VERSION :: StrictVersion where
  "JACK2_MIN_VERSION = \<lparr> version = (1, 9, 11), prerelease = None \<rparr>"

subsection \<open>What the script reads from its environment\<close>

text \<open>
  \<open>sys.argv\<close>, \<open>sys.platform\<close>, whether \<open>ctypes.util.find_library(name)\<close>
  returns a path (a true value) or \<open>None\<close>, and the outcome of
  \<^verbatim>\<open>subprocess.check_output(['pkg-config', '--modversion', 'jack'])\<close> followed by
  \<open>decode()\<close>: the decoded output, or the exception raised
  (\<open>CalledProcessError\<close> for a non-zero exit status, \<open>OSError\<close> when pkg-config
  cannot be run, \<open>UnicodeError\<close> from \<open>decode\<close>). Messages printed to
  \<open>stderr\<close> are not modelled.
\<close>

record build_env =
  sys_argv :: "string list"
  sys_platform :: string
  find_library :: "string \<Rightarrow> bool"
  pkg_config :: "py_error + string"

type_synonym macro = "string \<times> string option"

subsection \<open>\<open>check_for_jack\<close>\<close>

text \<open>
  The two lists are modified in place in the source; here they are passed and returned.
  The \<open>except\<close> clause catches \<open>CalledProcessError\<close>, \<open>UnicodeError\<close> and
  \<open>ValueError\<close>; any other exception leaves the function, and \<open>Inl\<close> is that
  exception. The \<open>else\<close> branch of the \<open>try\<close> first formats the version for a
  message, which is where an object without \<open>version\<close> raises.
\<close>

fun check_for_jack ::
  "build_env \<Rightarrow> macro list \<times> string list \<Rightarrow> py_error + (macro list \<times> string list)" where
  "check_for_jack env (macros, libs) =
     (if find_library env ''jack'' then
        let macros1 = macros @ [(''__UNIX_JACK__'', None)];
            tried = (case pkg_config env of
                       Inl e \<Rightarrow> Inl e
                     | Inr res \<Rightarrow> StrictVersion_init res)
        in case tried of
             Inl e \<Rightarrow>
               if e = CalledProcessError \<or> e = UnicodeError \<or> e = ValueError
               then Inr (macros1, libs @ [''jack''])
               else Inl e
           | Inr None \<Rightarrow> Inl AttributeError
           | Inr (Some jv) \<Rightarrow>
               if (fst (version jv) = 0 \<and> version_ge jv JACK1_MIN_VERSION) \<or>
                  (fst (version jv) = 1 \<and> version_ge jv JACK2_MIN_VERSION)
               then Inr (macros1 @ [(''JACK_HAS_PORT_RENAME'', None)], libs @ [''jack''])
               else Inr (macros1, libs @ [''jack''])
      else Inr (macros, libs))"

subsection \<open>The options of the extension, lines 178 to 241\<close>

text \<open>
  The module-level variables the script fills before it builds the \<open>Extension\<close>.
  \<open>include_dirs\<close> and \<open>sources\<close> are not touched by these lines and are left out.
\<close>

record setup_state =
  define_macros :: "macro list"
  libraries :: "string list"
  extra_link_args :: "string list"
  extra_compile_args :: "string list"
  alsa :: bool
  coremidi :: bool
  jack :: bool
  winmm :: bool
  argv :: "string list"

text \<open>
  \<^verbatim>\<open>if '--no-x' in sys.argv: x = False; sys.argv.remove('--no-x')\<close>: the flag stays
  \<open>True\<close> when the switch is absent, and \<open>remove\<close> deletes the first occurrence.
\<close>

definition take_switch :: "string \<Rightarrow> string list \<Rightarrow> bool \<times> string list" where
  "take_switch sw av = (if sw \<in> set av then (False, remove1 sw av) else (True, av))"

text \<open>Lines 178 to 204.\<close>

definition parse_switches :: "string list \<Rightarrow> setup_state" where
  "parse_switches av0 =
     (let (alsa', av1) = take_switch ''--no-alsa'' av0;
          (coremidi', av2) = take_switch ''--no-coremidi'' av1;
          (jack', av3) = take_switch ''--no-jack'' av2;
          (winmm', av4) = take_switch ''--no-winmm'' av3
      in \<lparr> define_macros =
             (if ''--no-suppress-warnings'' \<notin> set av4
              then [(''__RTMIDI_SILENCE_WARNINGS__'', None)] else []),
           libraries = [],
           extra_link_args = [],
           extra_compile_args = [],
           alsa = alsa',
           coremidi = coremidi',
           jack = jack',
           winmm = winmm',
           argv =
             (if ''--no-suppress-warnings'' \<notin> set av4
              then av4 else remove1 ''--no-suppress-warnings'' av4) \<rparr>)"

definition startswith :: "string \<Rightarrow> string \<Rightarrow> bool" where
  "startswith s p = (take (length p) s = p)"

text \<open>
  \<open>if jack: check_for_jack(define_macros, libraries)\<close>, as a step on the state.
\<close>

definition jack_step :: "build_env \<Rightarrow> setup_state \<Rightarrow> py_error + setup_state" where
  "jack_step env st =
     (if jack st then
        case check_for_jack env (define_macros st, libraries st) of
          Inl e \<Rightarrow> Inl e
        | Inr (macros, libs) \<Rightarrow> Inr (st\<lparr>define_macros := macros, libraries := libs\<rparr>)
      else Inr st)"

text \<open>
  Lines 207 to 241. \<open>sys.exit\<close> raises \<open>SystemExit\<close>. On an unsupported platform
  the script prints a warning and goes on.
\<close>

definition platform_config :: "build_env \<Rightarrow> setup_state \<Rightarrow> py_error + setup_state" where
  "platform_config env st =
     (if startswith (sys_platform env) ''linux'' then
        let st1 = (if alsa st \<and> find_library env ''asound''
                   then st\<lparr>define_macros := define_macros st @ [(''__LINUX_ALSA__'', None)],
                           libraries := libraries st @ [''asound'']\<rparr>
                   else st)
        in case jack_step env st1 of
             Inl e \<Rightarrow> Inl e
           | Inr st2 \<Rightarrow>
               if \<not> find_library env ''pthread'' then Inl SystemExit
               else Inr (st2\<lparr>libraries := libraries st2 @ [''pthread'']\<rparr>)
      else if startswith (sys_platform env) ''darwin'' then
        case jack_step env st of
          Inl e \<Rightarrow> Inl e
        | Inr st1 \<Rightarrow>
            if coremidi st1
            then Inr (st1\<lparr>define_macros := define_macros st1 @ [(''__MACOSX_CORE__'', None)],
                          extra_compile_args := extra_compile_args st1 @ [''-frtti''],
                          extra_link_args := extra_link_args st1 @
                            [''-framework'', ''CoreAudio'',
                             ''-framework'', ''CoreMIDI'',
                             ''-framework'', ''CoreFoundation'']\<rparr>)
            else Inr st1
      else if startswith (sys_platform env) ''win'' then
        let st1 = st\<lparr>extra_compile_args := extra_compile_args st @ [''/EHsc'']\<rparr>
        in if winmm st1
           then Inr (st1\<lparr>define_macros := define_macros st1 @ [(''__WINDOWS_MM__'', None)],
                         libraries := libraries st1 @ [''winmm'']\<rparr>)
           else Inr st1
      else Inr st)"

text \<open>
  The whole section: \<open>Inr st\<close> when the script reaches line 244, where the
  \<open>Extension\<close> is built from \<open>define_macros st\<close>, \<open>libraries st\<close>,
  \<open>extra_compile_args st\<close> and \<open>extra_link_args st\<close>; \<open>Inl e\<close> when it stops
  with \<open>e\<close> before, and no extension is configured.
\<close>

definition setup_config :: "build_env \<Rightarrow> py_error + setup_state" where
  "setup_config env = platform_config env (parse_switches (sys_argv env))"

subsection \<open>Notions used in the statements about setup.py\<close>

text \<open>
  What the version probe of \<open>check_for_jack\<close> amounts to: \<open>has_port_rename\<close> when
  pkg-config reports a version that parses and passes the test of lines 60 and 61;
  \<open>probe_raises\<close> when the probe ends in an exception that the \<open>except\<close> clause does
  not catch (then \<open>probe_error\<close>), which includes the empty output.
\<close>

definition has_port_rename :: "build_env \<Rightarrow> bool" where
  "has_port_rename env =
     (case pkg_config env of
        Inl e \<Rightarrow> False
      | Inr s \<Rightarrow>
          (case parse s of
             Inl e \<Rightarrow> False
           | Inr jv \<Rightarrow>
               (fst (version jv) = 0 \<and> version_ge jv JACK1_MIN_VERSION) \<or>
               (fst (version jv) = 1 \<and> version_ge jv JACK2_MIN_VERSION)))"

definition probe_raises :: "build_env \<Rightarrow> bool" where
  "probe_raises env =
     (case pkg_config env of
        Inl e \<Rightarrow> e \<noteq> CalledProcessError \<and> e \<noteq> UnicodeError \<and> e \<noteq> ValueError
      | Inr s \<Rightarrow> s = [])"

definition probe_error :: "build_env \<Rightarrow> py_error" where
  "probe_error env = (case pkg_config env of Inl e \<Rightarrow> e | Inr s \<Rightarrow> AttributeError)"

definition jack_macros :: "build_env \<Rightarrow> macro list" where
  "jack_macros env =
     (if find_library env ''jack''
      then (''__UNIX_JACK__'', None) #
           (if has_port_rename env then [(''JACK_HAS_PORT_RENAME'', None)] else [])
      else [])"

definition jack_libs :: "build_env \<Rightarrow> string list" where
  "jack_libs env = (if find_library env ''jack'' then [''jack''] else [])"

text \<open>
  The inputs on which the script stops before it builds the extension: on Linux without
  the pthread library (\<open>sys.exit\<close>, line 216), and where \<open>check_for_jack\<close> is called,
  finds the library and its probe raises.
\<close>

definition script_aborts :: "build_env \<Rightarrow> bool" where
  "script_aborts env =
     ((startswith (sys_platform env) ''linux'' \<and> \<not> find_library env ''pthread'') \<or>
      ((startswith (sys_platform env) ''linux'' \<or> startswith (sys_platform env) ''darwin'') \<and>
       ''--no-jack'' \<notin> set (sys_argv env) \<and> find_library env ''jack'' \<and> probe_raises env))"

text \<open>The lists an extension is built from, written out by backend.\<close>

definition expected_macros :: "build_env \<Rightarrow> macro list" where
  "expected_macros env =
     (if ''--no-suppress-warnings'' \<notin> set (sys_argv env)
      then [(''__RTMIDI_SILENCE_WARNINGS__'', None)] else [])
     @ (if startswith (sys_platform env) ''linux'' \<and> ''--no-alsa'' \<notin> set (sys_argv env)
           \<and> find_library env ''asound''
        then [(''__LINUX_ALSA__'', None)] else [])
     @ (if (startswith (sys_platform env) ''linux'' \<or> startswith (sys_platform env) ''darwin'')
           \<and> ''--no-jack'' \<notin> set (sys_argv env)
        then jack_macros env else [])
     @ (if startswith (sys_platform env) ''darwin'' \<and> ''--no-coremidi'' \<notin> set (sys_argv env)
        then [(''__MACOSX_CORE__'', None)] else [])
     @ (if startswith (sys_platform env) ''win'' \<and> ''--no-winmm'' \<notin> set (sys_argv env)
        then [(''__WINDOWS_MM__'', None)] else [])"

definition expected_libraries :: "build_env \<Rightarrow> string list" where
  "expected_libraries env =
     (if startswith (sys_platform env) ''linux'' \<and> ''--no-alsa'' \<notin> set (sys_argv env)
           \<and> find_library env ''asound''
        then [''asound''] else [])
     @ (if (startswith (sys_platform env) ''linux'' \<or> startswith (sys_platform env) ''darwin'')
           \<and> ''--no-jack'' \<notin> set (sys_argv env)
        then jack_libs env else [])
     @ (if startswith (sys_platform env) ''linux'' then [''pthread''] else [])
     @ (if startswith (sys_platform env) ''win'' \<and> ''--no-winmm'' \<notin> set (sys_argv env)
        then [''winmm''] else [])"

definition expected_link_args :: "build_env \<Rightarrow> string list" where
  "expected_link_args env =
     (if startswith (sys_platform env) ''darwin'' \<and> ''--no-coremidi'' \<notin> set (sys_argv env)
      then [''-framework'', ''CoreAudio'', ''-framework'', ''CoreMIDI'',
            ''-framework'', ''CoreFoundation'']
      else [])"

text \<open>
  Three concrete environments. \<open>linux_jack2_env\<close>: Linux, \<open>--no-alsa\<close> given, every
  library found, pkg-config reports JACK 1.9.12. \<open>linux_no_pthread_env\<close>: Linux, no
  switch given, the ALSA library found, the JACK and pthread libraries not found.
  \<open>darwin_no_pkg_config_env\<close>: macOS, no switch given, the JACK library found,
  pkg-config cannot be run.
\<close>

definition linux_jack2_env :: build_env where
  "linux_jack2_env =
     \<lparr> sys_argv = [''setup.py'', ''build'', ''--no-alsa''],
       sys_platform = ''linux2'',
       find_library = (\<lambda>name. True),
       pkg_config = Inr (''1.9.12'' @ [CHR 0x0A]) \<rparr>"

definition linux_no_pthread_env :: build_env where
  "linux_no_pthread_env =
     \<lparr> sys_argv = [''setup.py'', ''build''],
       sys_platform = ''linux'',
       find_library = (\<lambda>name. name = ''asound''),
       pkg_config = Inl OSError \<rparr>"

definition darwin_no_pkg_config_env :: build_env where
  "darwin_no_pkg_config_env =
     \<lparr> sys_argv = [''setup.py'', ''build''],
       sys_platform = ''darwin'',
       find_library = (\<lambda>name. name = ''jack''),
       pkg_config = Inl OSError \<rparr>"

section \<open>Properties of examples/wavetablemodstep.py\<close>

subsection \<open>Bit masks on Python integers\<close>

lemma and_15_mod: "(ch::int) AND 15 = ch mod 16"
proof -
  have "ch AND mask 4 = ch mod 2 ^ 4"
    by (simp only: take_bit_eq_mask [symmetric] take_bit_eq_mod)
  then show ?thesis by (simp add: mask_eq_exp_minus_1)
qed

lemma and_127_mod: "(x::int) AND 127 = x mod 128"
proof -
  have "x AND mask 7 = x mod 2 ^ 7"
    by (simp only: take_bit_eq_mask [symmetric] take_bit_eq_mod)
  then show ?thesis by (simp add: mask_eq_exp_minus_1)
qed

subsection \<open>The messages of a run\<close>

lemma sent_messages_append: "sent_messages (xs @ ys) = sent_messages xs @ sent_messages ys"
  by (induction xs rule: sent_messages.induct) simp_all

lemma sent_messages_steps:
  "sent_messages (concat (map (\<lambda>i. [SendMessage (f i), Sleep d]) xs)) = map f xs"
  by (induction xs) simp_all

lemma sent_play_stepping:
  "sent_messages (fst (play_stepping maxint note dur step vel rvel ch)) =
     (case xrange maxint 0 128 step of
        Inl e \<Rightarrow> [[0x90 OR (ch AND 0xF), note AND 0x7F, vel AND 0x7F]]
      | Inr steps \<Rightarrow> [[0x90 OR (ch AND 0xF), note AND 0x7F, vel AND 0x7F]]
          @ map (\<lambda>i. [0xB0 OR (ch AND 0xF), 1, i]) steps
          @ [[0x80 OR (ch AND 0xF), note AND 0x7F,
               (case rvel of Some r \<Rightarrow> r | None \<Rightarrow> vel) AND 0x7F]])"
  by (simp add: play_stepping_def Let_def sent_messages_append sent_messages_steps
      split: sum.splits)

lemma snd_play_stepping:
  "snd (play_stepping maxint note dur step vel rvel ch) =
     (case xrange maxint 0 128 step of Inl e \<Rightarrow> Some e | Inr steps \<Rightarrow> None)"
  by (simp add: play_stepping_def Let_def split: sum.splits)

lemma xrange_step2:
  "2 \<le> maxint \<Longrightarrow> xrange maxint 0 128 2 = Inr
    [0, 2, 4, 6, 8, 10, 12, 14, 16, 18, 20, 22, 24, 26, 28, 30,
     32, 34, 36, 38, 40, 42, 44, 46, 48, 50, 52, 54, 56, 58, 60, 62,
     64, 66, 68, 70, 72, 74, 76, 78, 80, 82, 84, 86, 88, 90, 92, 94,
     96, 98, 100, 102, 104, 106, 108, 110, 112, 114, 116, 118, 120, 122, 124, 126]"
  by (simp add: xrange_def xrange_len_def upt_rec)

text \<open>
  C1. \<open>play_stepping(note=60, step=2)\<close> with the defaults \<open>vel=64\<close>,
  \<open>rvel=None\<close>, \<open>ch=0\<close> (and any duration) hands \<open>send_message\<close> exactly: one
  Note On \<open>[0x90, 60, 64]\<close>, then the Control Change messages \<open>[0xB0, 1, v]\<close> for
  \<open>v = 0, 2, 4, ..., 126\<close> in this order, then one Note Off \<open>[0x80, 60, 64]\<close>, and
  returns normally. The hypothesis says that the step 2 fits a C \<open>long\<close>, as it does on
  every platform.
\<close>

theorem play_stepping_note60_step2:
  "2 \<le> maxint \<Longrightarrow>
   sent_messages (fst (play_stepping maxint 60 dur 2 64 None 0)) =
     [[0x90, 60, 64]]
     @ map (\<lambda>v. [0xB0, 1, v])
        [0, 2, 4, 6, 8, 10, 12, 14, 16, 18, 20, 22, 24, 26, 28, 30,
         32, 34, 36, 38, 40, 42, 44, 46, 48, 50, 52, 54, 56, 58, 60, 62,
         64, 66, 68, 70, 72, 74, 76, 78, 80, 82, 84, 86, 88, 90, 92, 94,
         96, 98, 100, 102, 104, 106, 108, 110, 112, 114, 116, 118, 120, 122, 124, 126]
     @ [[0x80, 60, 64]]
   \<and> snd (play_stepping maxint 60 dur 2 64 None 0) = None"
  by (simp add: sent_play_stepping snd_play_stepping xrange_step2)

theorem play_stepping_note60_step2_witness:
  "(2::int) \<le> 2147483647 \<and>
   sent_messages (fst (play_stepping 2147483647 60 0.2 2 64 None 0)) =
     [[0x90, 60, 64]]
     @ map (\<lambda>v. [0xB0, 1, v])
        [0, 2, 4, 6, 8, 10, 12, 14, 16, 18, 20, 22, 24, 26, 28, 30,
         32, 34, 36, 38, 40, 42, 44, 46, 48, 50, 52, 54, 56, 58, 60, 62,
         64, 66, 68, 70, 72, 74, 76, 78, 80, 82, 84, 86, 88, 90, 92, 94,
         96, 98, 100, 102, 104, 106, 108, 110, 112, 114, 116, 118, 120, 122, 124, 126]
     @ [[0x80, 60, 64]]
   \<and> snd (play_stepping 2147483647 60 0.2 2 64 None 0) = None"
proof -
  have fits: "(2::int) \<le> 2147483647" by simp
  from play_stepping_note60_step2 [OF fits, of "0.2"] fits show ?thesis by blast
qed

subsection \<open>Status bytes\<close>

lemma status_low_nibble: "(k::int) AND 15 = 0 \<Longrightarrow> (k OR (ch AND 15)) AND 15 = ch AND 15"
  by (simp add: bit.conj_disj_distrib2)

lemma status_high_nibble: "((k::int) OR (ch AND 15)) AND 240 = k AND 240"
  by (simp add: bit.conj_disj_distrib2 and.assoc)

lemma sent_play_stepping_nibble:
  "m \<in> set (sent_messages (fst (play_stepping maxint note dur step vel rvel ch))) \<Longrightarrow>
   hd m AND 0xF = ch AND 0xF"
  by (auto simp: sent_play_stepping status_low_nibble split: sum.splits)

lemma sent_main_program:
  "sent_messages (fst (main_program maxint a)) =
     (case wavetable a of
        Some w \<Rightarrow>
          if w \<noteq> 0 then [[0xB0 OR ((channel a - 1) AND 0xF), 70, (w - 1) AND 0x7F]] else []
      | None \<Rightarrow> [])
     @ [[0xB0 OR ((channel a - 1) AND 0xF), 121, 0]]
     @ sent_messages
         (fst (play_stepping maxint (note_arg a) (length_arg a) 2 64 None (channel a - 1)))
     @ (case snd (play_stepping maxint (note_arg a) (length_arg a) 2 64 None (channel a - 1)) of
          Some e \<Rightarrow> []
        | None \<Rightarrow> [[0xB0 OR ((channel a - 1) AND 0xF), 121, 0]])"
  by (simp add: main_program_def Let_def sent_messages_append Midi_init_def close_def
      reset_controllers_def set_wavetable_def split: prod.splits option.splits)

lemma sent_main_program_nibble:
  "m \<in> set (sent_messages (fst (main_program maxint a))) \<Longrightarrow>
   hd m AND 0xF = (channel a - 1) AND 0xF"
  by (auto simp: sent_main_program status_low_nibble dest: sent_play_stepping_nibble
      split: option.splits if_splits)

text \<open>
  The run of the program without options, on a platform with a 32-bit \<open>long\<close>: every
  status byte ends in the nibble \<open>0xF\<close>.
\<close>

lemma main_program_no_options:
  "main_program 2147483647 (parse_args no_options) =
     ([OpenPort 0, SendMessage [0xBF, 121, 0], SendMessage [0x9F, 60, 64]]
      @ concat (map (\<lambda>i. [SendMessage [0xBF, 1, i], Sleep 0.3])
          [0, 2, 4, 6, 8, 10, 12, 14, 16, 18, 20, 22, 24, 26, 28, 30,
           32, 34, 36, 38, 40, 42, 44, 46, 48, 50, 52, 54, 56, 58, 60, 62,
           64, 66, 68, 70, 72, 74, 76, 78, 80, 82, 84, 86, 88, 90, 92, 94,
           96, 98, 100, 102, 104, 106, 108, 110, 112, 114, 116, 118, 120, 122, 124, 126])
      @ [SendMessage [0x8F, 60, 64], SendMessage [0xBF, 121, 0], ClosePort],
      None)"
  by (simp add: main_program_def parse_args_def no_options_def play_stepping_def xrange_step2
      Midi_init_def reset_controllers_def close_def)

subsection \<open>The claims about \<open>play_stepping\<close>, \<open>set_wavetable\<close> and \<open>reset_controllers\<close>\<close>

text \<open>
  C2. For every integer \<open>note\<close> (and whatever the other arguments are) the first
  message \<open>play_stepping\<close> sends is the Note On whose note byte is \<open>note & 0x7F\<close>
  and whose velocity byte is \<open>vel & 0x7F\<close>; these are the low seven bits, that is
  the value modulo 128. Whether the call raises does not depend on \<open>note\<close>: no note
  is rejected. For \<open>note = 200\<close> the byte is 72. \<open>set_wavetable\<close> sends
  \<open>wt & 0x7F\<close> in the same way.
\<close>

theorem play_stepping_masks_low_7_bits:
  "hd (sent_messages (fst (play_stepping maxint note dur step vel rvel ch))) =
     [0x90 OR (ch AND 0xF), note AND 0x7F, vel AND 0x7F]
   \<and> note AND 0x7F = note mod 128 \<and> vel AND 0x7F = vel mod 128
   \<and> snd (play_stepping maxint note dur step vel rvel ch) =
       snd (play_stepping maxint 60 dur step vel rvel ch)
   \<and> hd (sent_messages (fst (play_stepping maxint 200 dur step vel rvel ch))) ! 1 = 72
   \<and> sent_messages (set_wavetable wt ch) = [[0xB0 OR (ch AND 0xF), 70, wt AND 0x7F]]
   \<and> wt AND 0x7F = wt mod 128"
  by (simp add: sent_play_stepping snd_play_stepping set_wavetable_def and_127_mod
      split: sum.splits)

text \<open>
  C3. Every Control Change message (status byte \<open>0xBn\<close>) that \<open>play_stepping\<close>
  sends has the controller number 1 as its second byte, for all arguments.
\<close>

theorem play_stepping_controller_is_1:
  "\<forall>m \<in> set (sent_messages (fst (play_stepping maxint note dur step vel rvel ch))).
     hd m AND 0xF0 = 0xB0 \<longrightarrow> m ! 1 = 1"
  by (auto simp: sent_play_stepping status_high_nibble split: sum.splits)

theorem play_stepping_controller_is_1_witness:
  "[0xB0, 1, 4] \<in> set (sent_messages (fst (play_stepping 2147483647 60 0.2 2 64 None 0)))
   \<and> hd [0xB0, 1, 4] AND 0xF0 = (0xB0::int) \<and> [0xB0, 1, 4::int] ! 1 = 1"
proof -
  have mem: "[0xB0, 1, 4] \<in> set (sent_messages (fst (play_stepping 2147483647 60 0.2 2 64 None 0)))"
    by (simp add: sent_play_stepping xrange_step2)
  have cc: "hd [0xB0, 1, 4] AND 0xF0 = (0xB0::int)" by simp
  from play_stepping_controller_is_1 [rule_format, OF mem cc] mem cc show ?thesis by blast
qed

lemma controller_numbers_play_stepping:
  "set (controller_numbers (fst (play_stepping maxint note dur step vel rvel ch))) \<subseteq> {1}"
  by (auto simp: controller_numbers_def sent_play_stepping status_high_nibble split: sum.splits)

lemma controller_numbers_set_wavetable: "controller_numbers (set_wavetable wt ch) = [70]"
  by (simp add: controller_numbers_def set_wavetable_def status_high_nibble)

lemma controller_numbers_reset_controllers: "controller_numbers (reset_controllers ch) = [121]"
  by (simp add: controller_numbers_def reset_controllers_def status_high_nibble)

text \<open>
  C4, as stated, fails: no argument of the three operations reaches the controller
  number. There are no arguments for which \<open>set_wavetable\<close> sends a controller number
  other than 70, \<open>reset_controllers\<close> one other than 121, or \<open>play_stepping\<close> one
  other than 1.
\<close>

theorem controller_not_configurable:
  "\<not> (\<exists>wt ch. controller_numbers (set_wavetable wt ch) \<noteq> [70])
   \<and> \<not> (\<exists>ch. controller_numbers (reset_controllers ch) \<noteq> [121])
   \<and> \<not> (\<exists>maxint note dur step vel rvel ch.
          \<not> set (controller_numbers (fst (play_stepping maxint note dur step vel rvel ch))) \<subseteq> {1})"
  by (simp add: controller_numbers_set_wavetable controller_numbers_reset_controllers
      controller_numbers_play_stepping)

text \<open>
  C4, amended. The controller numbers are literals of the message construction: for all
  arguments \<open>set_wavetable\<close> sends one Control Change with controller number 70,
  \<open>reset_controllers\<close> one with controller number 121, and every Control Change of
  \<open>play_stepping\<close> has controller number 1.
\<close>

theorem controller_numbers_are_literals:
  "controller_numbers (set_wavetable wt ch) = [70]
   \<and> controller_numbers (reset_controllers ch) = [121]
   \<and> set (controller_numbers (fst (play_stepping maxint note dur step vel rvel ch))) \<subseteq> {1}"
  by (simp add: controller_numbers_set_wavetable controller_numbers_reset_controllers
      controller_numbers_play_stepping)

text \<open>
  C10. Whatever the arguments, a Note Off (status byte \<open>0x8n\<close>) sent by
  \<open>play_stepping\<close> carries the note byte \<open>note & 0x7F\<close> of the Note On, which is the
  first message, and the velocity byte \<open>rvel & 0x7F\<close> when \<open>rvel\<close> is given,
  \<open>vel & 0x7F\<close>, the velocity byte of the Note On, when it is \<open>None\<close>. When the loop
  runs (the step is not 0 and fits a C \<open>long\<close>), exactly one Note Off is sent, as the
  last message, and the call returns normally.
\<close>

theorem play_stepping_note_off:
  "(\<forall>m \<in> set (sent_messages (fst (play_stepping maxint note dur step vel rvel ch))).
      hd m AND 0xF0 = 0x80 \<longrightarrow>
      m = [0x80 OR (ch AND 0xF), note AND 0x7F,
           (case rvel of Some r \<Rightarrow> r AND 0x7F | None \<Rightarrow> vel AND 0x7F)])
   \<and> hd (sent_messages (fst (play_stepping maxint note dur step vel rvel ch)))
     = [0x90 OR (ch AND 0xF), note AND 0x7F, vel AND 0x7F]
   \<and> (step \<noteq> 0 \<and> - maxint - 1 \<le> step \<and> step \<le> maxint \<longrightarrow>
        filter (\<lambda>m. hd m AND 0xF0 = 0x80)
            (sent_messages (fst (play_stepping maxint note dur step vel rvel ch)))
          = [[0x80 OR (ch AND 0xF), note AND 0x7F,
              (case rvel of Some r \<Rightarrow> r AND 0x7F | None \<Rightarrow> vel AND 0x7F)]]
        \<and> last (sent_messages (fst (play_stepping maxint note dur step vel rvel ch)))
          = [0x80 OR (ch AND 0xF), note AND 0x7F,
             (case rvel of Some r \<Rightarrow> r AND 0x7F | None \<Rightarrow> vel AND 0x7F)]
        \<and> snd (play_stepping maxint note dur step vel rvel ch) = None)"
proof (intro conjI impI ballI)
  fix m
  assume "m \<in> set (sent_messages (fst (play_stepping maxint note dur step vel rvel ch)))"
    and "hd m AND 0xF0 = 0x80"
  then show "m = [0x80 OR (ch AND 0xF), note AND 0x7F,
           (case rvel of Some r \<Rightarrow> r AND 0x7F | None \<Rightarrow> vel AND 0x7F)]"
    by (auto simp: sent_play_stepping status_high_nibble split: sum.splits option.splits)
next
  show "hd (sent_messages (fst (play_stepping maxint note dur step vel rvel ch)))
     = [0x90 OR (ch AND 0xF), note AND 0x7F, vel AND 0x7F]"
    by (simp add: sent_play_stepping split: sum.splits)
next
  assume "step \<noteq> 0 \<and> - maxint - 1 \<le> step \<and> step \<le> maxint"
  then have x: "xrange maxint 0 128 step =
      Inr (map (\<lambda>k. 0 + int k * step) [0..<xrange_len 0 128 step])"
    by (simp add: xrange_def)
  show "filter (\<lambda>m. hd m AND 0xF0 = 0x80)
            (sent_messages (fst (play_stepping maxint note dur step vel rvel ch)))
          = [[0x80 OR (ch AND 0xF), note AND 0x7F,
              (case rvel of Some r \<Rightarrow> r AND 0x7F | None \<Rightarrow> vel AND 0x7F)]]"
    by (simp add: sent_play_stepping x status_high_nibble filter_map comp_def
        split: option.splits)
  show "last (sent_messages (fst (play_stepping maxint note dur step vel rvel ch)))
          = [0x80 OR (ch AND 0xF), note AND 0x7F,
             (case rvel of Some r \<Rightarrow> r AND 0x7F | None \<Rightarrow> vel AND 0x7F)]"
    by (simp add: sent_play_stepping x split: option.splits)
  show "snd (play_stepping maxint note dur step vel rvel ch) = None"
    by (simp add: snd_play_stepping x)
qed

theorem play_stepping_note_off_witness:
  "[0x85, 72, 44] \<in> set (sent_messages (fst (play_stepping 2147483647 200 0.2 3 300 None 5)))
   \<and> hd [0x85, 72, 44] AND 0xF0 = (0x80 :: int)
   \<and> (3::int) \<noteq> 0 \<and> - 2147483647 - 1 \<le> (3::int) \<and> (3::int) \<le> 2147483647
   \<and> last (sent_messages (fst (play_stepping 2147483647 200 0.2 3 300 None 5)))
       = [0x85, 72, 44]
   \<and> hd (sent_messages (fst (play_stepping 2147483647 200 0.2 3 300 None 5)))
       = [0x95, 72, 44]
   \<and> last (sent_messages (fst (play_stepping 2147483647 200 0.2 3 300 (Some 130) 5)))
       = [0x85, 72, 2]"
proof -
  have h: "(3::int) \<noteq> 0 \<and> - 2147483647 - 1 \<le> (3::int) \<and> (3::int) \<le> 2147483647"
    by simp
  have l1: "last (sent_messages (fst (play_stepping 2147483647 200 0.2 3 300 None 5)))
       = [0x85, 72, 44]"
    and h1: "hd (sent_messages (fst (play_stepping 2147483647 200 0.2 3 300 None 5)))
       = [0x95, 72, 44]"
    using play_stepping_note_off [of 2147483647 200 "0.2" 3 300 None 5] h by simp_all
  have l2: "last (sent_messages (fst (play_stepping 2147483647 200 0.2 3 300 (Some 130) 5)))
       = [0x85, 72, 2]"
    using play_stepping_note_off [of 2147483647 200 "0.2" 3 300 "Some 130" 5] h by simp
  have mem: "[0x85, 72, 44] \<in> set (sent_messages (fst (play_stepping 2147483647 200 0.2 3 300 None 5)))"
    by (simp add: sent_play_stepping xrange_def)
  have st: "hd [0x85, 72, 44] AND 0xF0 = (0x80 :: int)" by simp
  from h l1 h1 l2 mem st show ?thesis by blast
qed

subsection \<open>The claims about the main program\<close>

text \<open>
  C5. For a channel \<open>c\<close> from 1 to 16 given on the command line, the program passes
  \<open>c - 1\<close> to every operation, \<open>(c - 1) & 0xF\<close> is \<open>c - 1\<close>, and every message
  of the run has \<open>c - 1\<close> as the low nibble of its status byte.
\<close>

theorem main_program_channel_is_converted:
  "1 \<le> c \<Longrightarrow> c \<le> 16 \<Longrightarrow> channel a = c \<Longrightarrow>
   (c - 1) AND 0xF = c - 1 \<and>
   (\<forall>m \<in> set (sent_messages (fst (main_program maxint a))). hd m AND 0xF = c - 1)"
proof (intro conjI ballI)
  assume c: "1 \<le> c" "c \<le> 16"
  then show nib: "(c - 1) AND 0xF = c - 1" by (simp add: and_15_mod)
  fix m
  assume "channel a = c" and "m \<in> set (sent_messages (fst (main_program maxint a)))"
  with nib show "hd m AND 0xF = c - 1"
    using sent_main_program_nibble [of m maxint a] by simp
qed

theorem main_program_channel_is_converted_witness:
  "(1::int) \<le> 10 \<and> (10::int) \<le> 16
   \<and> channel (parse_args (no_options\<lparr>opt_channel := Some 10, opt_wavetable := Some 3\<rparr>)) = 10
   \<and> [0xB9, 70, 2] \<in> set (sent_messages (fst (main_program 2147483647
         (parse_args (no_options\<lparr>opt_channel := Some 10, opt_wavetable := Some 3\<rparr>)))))
   \<and> hd [0xB9, 70, 2] AND 0xF = (10::int) - 1"
proof -
  let ?a = "parse_args (no_options\<lparr>opt_channel := Some 10, opt_wavetable := Some 3\<rparr>)"
  have ch: "channel ?a = 10" by (simp add: parse_args_def no_options_def)
  have wt: "wavetable ?a = Some 3" by (simp add: parse_args_def no_options_def)
  have mem: "[0xB9, 70, 2] \<in> set (sent_messages (fst (main_program 2147483647 ?a)))"
    by (simp add: sent_main_program ch wt)
  have r: "(1::int) \<le> 10" "(10::int) \<le> 16" by simp_all
  from main_program_channel_is_converted [OF r ch, of 2147483647] mem
  have "hd [0xB9, 70, 2] AND 0xF = (10::int) - 1" by blast
  with r ch mem show ?thesis by blast
qed

text \<open>
  C9. Without \<open>--channel\<close> the parsed channel is the default 0, \<open>args.channel - 1\<close>
  is \<open>-1\<close>, \<open>-1 & 0xF\<close> is 15, and every message of the run has 15 as the low
  nibble of its status byte: MIDI channel 16, not channel 1 (nibble 0).
\<close>

theorem main_program_default_channel:
  "opt_channel c = None \<Longrightarrow>
   channel (parse_args c) = 0 \<and> channel (parse_args c) - 1 = - 1
   \<and> (- 1) AND 0xF = (15::int)
   \<and> (\<forall>m \<in> set (sent_messages (fst (main_program maxint (parse_args c)))).
         hd m AND 0xF = 15 \<and> hd m AND 0xF \<noteq> 0)"
proof (intro conjI ballI)
  assume d: "opt_channel c = None"
  then show ch: "channel (parse_args c) = 0" by (simp add: parse_args_def)
  then show "channel (parse_args c) - 1 = - 1" by simp
  show "(- 1) AND 0xF = (15::int)" by simp
  fix m
  assume "m \<in> set (sent_messages (fst (main_program maxint (parse_args c))))"
  from sent_main_program_nibble [OF this] ch show n: "hd m AND 0xF = 15" by simp
  then show "hd m AND 0xF \<noteq> 0" by simp
qed

theorem main_program_default_channel_witness:
  "opt_channel no_options = None
   \<and> [0x9F, 60, 64] \<in> set (sent_messages (fst (main_program 2147483647 (parse_args no_options))))
   \<and> hd [0x9F, 60, 64] AND 0xF = (15::int)"
proof -
  have d: "opt_channel no_options = None" by (simp add: no_options_def)
  have mem: "[0x9F, 60, 64] \<in> set (sent_messages (fst (main_program 2147483647 (parse_args no_options))))"
    by (simp add: main_program_no_options sent_messages_append)
  from main_program_default_channel [OF d, of 2147483647] mem
  have "hd [0x9F, 60, 64] AND 0xF = (15::int)" by blast
  with d mem show ?thesis by blast
qed

section \<open>Properties of setup.py\<close>

subsection \<open>The version probe\<close>

lemma parse_Nil: "parse [] = Inl ValueError"
  by (simp add: parse_def)

lemma parse_error: "parse s = Inl e \<Longrightarrow> e = ValueError"
  by (auto simp: parse_def Let_def split: list.splits if_splits prod.splits)

lemma check_for_jack_eq:
  "check_for_jack env (macros, libs) =
     (if find_library env ''jack'' \<and> probe_raises env then Inl (probe_error env)
      else Inr (macros @ jack_macros env, libs @ jack_libs env))"
  by (auto simp: StrictVersion_init_def probe_raises_def probe_error_def jack_macros_def
        jack_libs_def has_port_rename_def parse_Nil
      split: sum.splits option.splits dest: parse_error)

lemma has_port_rename_iff:
  "has_port_rename env \<longleftrightarrow>
     (\<exists>s jv. pkg_config env = Inr s \<and> parse s = Inr jv \<and>
        ((fst (version jv) = 0 \<and> version_ge jv JACK1_MIN_VERSION) \<or>
         (fst (version jv) = 1 \<and> version_ge jv JACK2_MIN_VERSION)))"
  by (auto simp: has_port_rename_def split: sum.splits)

lemma version_ge_JACK1:
  "version jv = (a, b, c) \<Longrightarrow>
   a = 0 \<and> version_ge jv JACK1_MIN_VERSION \<longleftrightarrow>
   a = 0 \<and> (125 < b \<or> (b = 125 \<and> (0 < c \<or> prerelease jv = None)))"
  by (auto simp: version_ge_def cmp_version_def JACK1_MIN_VERSION_def split: option.splits)

lemma version_ge_JACK2:
  "version jv = (a, b, c) \<Longrightarrow>
   a = 1 \<and> version_ge jv JACK2_MIN_VERSION \<longleftrightarrow>
   a = 1 \<and> (9 < b \<or> (b = 9 \<and> (11 < c \<or> (c = 11 \<and> prerelease jv = None))))"
  by (auto simp: version_ge_def cmp_version_def JACK2_MIN_VERSION_def split: option.splits)

lemma check_for_jack_defines_rename:
  "find_library env ''jack'' \<Longrightarrow> (''JACK_HAS_PORT_RENAME'', None) \<notin> set macros \<Longrightarrow>
   (\<exists>macros' libs'. check_for_jack env (macros, libs) = Inr (macros', libs')
        \<and> (''JACK_HAS_PORT_RENAME'', None) \<in> set macros')
   \<longleftrightarrow> \<not> probe_raises env \<and> has_port_rename env"
  by (auto simp: check_for_jack_eq jack_macros_def simp del: check_for_jack.simps)

lemma has_port_rename_not_raises: "has_port_rename env \<Longrightarrow> \<not> probe_raises env"
  by (auto simp: has_port_rename_def probe_raises_def parse_Nil split: sum.splits)

text \<open>
  C6. When the jack library is found (and the macro is not already in the list),
  \<open>check_for_jack\<close> returns with \<open>JACK_HAS_PORT_RENAME\<close> among the macros if and only
  if pkg-config reports a version that parses and whose first component is 0 and which
  is at least 0.125.0, or whose first component is 1 and which is at least 1.9.11. So the
  macro is not defined when pkg-config fails, when its output does not parse and when the
  version is older. \<open>version_ge_JACK1\<close> and \<open>version_ge_JACK2\<close> above spell out
  "at least".
\<close>

theorem check_for_jack_port_rename:
  assumes found: "find_library env ''jack''"
    and fresh: "(''JACK_HAS_PORT_RENAME'', None) \<notin> set macros"
  shows "(\<exists>macros' libs'. check_for_jack env (macros, libs) = Inr (macros', libs')
        \<and> (''JACK_HAS_PORT_RENAME'', None) \<in> set macros')
   \<longleftrightarrow>
   (\<exists>s jv. pkg_config env = Inr s \<and> parse s = Inr jv \<and>
        ((fst (version jv) = 0 \<and> version_ge jv JACK1_MIN_VERSION) \<or>
         (fst (version jv) = 1 \<and> version_ge jv JACK2_MIN_VERSION)))"
proof -
  have "(\<exists>macros' libs'. check_for_jack env (macros, libs) = Inr (macros', libs')
        \<and> (''JACK_HAS_PORT_RENAME'', None) \<in> set macros')
      \<longleftrightarrow> \<not> probe_raises env \<and> has_port_rename env"
    by (rule check_for_jack_defines_rename [OF found fresh])
  also have "\<dots> \<longleftrightarrow> has_port_rename env"
    using has_port_rename_not_raises [of env] by blast
  finally show ?thesis
    by (simp only: has_port_rename_iff)
qed

lemma parse_1_9_12:
  "parse (''1.9.12'' @ [CHR 0x0A]) = Inr \<lparr>version = (1, 9, 12), prerelease = None\<rparr>"
  by (simp add: parse_def is_digit_def int_of_digits_def opt_patch_def opt_prerelease_def
      at_end_def)

theorem check_for_jack_port_rename_witness:
  "find_library linux_jack2_env ''jack''
   \<and> (''JACK_HAS_PORT_RENAME'', None) \<notin> set [(''__RTMIDI_SILENCE_WARNINGS__'', None :: string option)]
   \<and> (\<exists>macros' libs'.
         check_for_jack linux_jack2_env ([(''__RTMIDI_SILENCE_WARNINGS__'', None)], []) = Inr (macros', libs')
         \<and> (''JACK_HAS_PORT_RENAME'', None) \<in> set macros')"
proof -
  have found: "find_library linux_jack2_env ''jack''"
    by (simp add: linux_jack2_env_def)
  have fresh: "(''JACK_HAS_PORT_RENAME'', None) \<notin> set [(''__RTMIDI_SILENCE_WARNINGS__'', None :: string option)]"
    by simp
  have probe: "pkg_config linux_jack2_env = Inr (''1.9.12'' @ [CHR 0x0A])"
    by (simp add: linux_jack2_env_def)
  have new_enough:
    "fst (version \<lparr>version = (1, 9, 12), prerelease = None\<rparr>) = 1
     \<and> version_ge \<lparr>version = (1, 9, 12), prerelease = None\<rparr> JACK2_MIN_VERSION"
    by (simp add: version_ge_def cmp_version_def JACK2_MIN_VERSION_def)
  from probe parse_1_9_12 new_enough
  have "\<exists>s jv. pkg_config linux_jack2_env = Inr s \<and> parse s = Inr jv \<and>
        ((fst (version jv) = 0 \<and> version_ge jv JACK1_MIN_VERSION) \<or>
         (fst (version jv) = 1 \<and> version_ge jv JACK2_MIN_VERSION))"
    by blast
  with check_for_jack_port_rename [OF found fresh, of "[]"] found fresh show ?thesis by blast
qed

subsection \<open>The lists of the extension\<close>

lemma take_switch_fst: "fst (take_switch sw av) \<longleftrightarrow> sw \<notin> set av"
  by (simp add: take_switch_def)

lemma take_switch_snd: "x \<noteq> sw \<Longrightarrow> x \<in> set (snd (take_switch sw av)) \<longleftrightarrow> x \<in> set av"
  by (simp add: take_switch_def)

lemma parse_switches_fields:
  "alsa (parse_switches av) \<longleftrightarrow> ''--no-alsa'' \<notin> set av"
  "coremidi (parse_switches av) \<longleftrightarrow> ''--no-coremidi'' \<notin> set av"
  "jack (parse_switches av) \<longleftrightarrow> ''--no-jack'' \<notin> set av"
  "winmm (parse_switches av) \<longleftrightarrow> ''--no-winmm'' \<notin> set av"
  "define_macros (parse_switches av) =
     (if ''--no-suppress-warnings'' \<notin> set av then [(''__RTMIDI_SILENCE_WARNINGS__'', None)] else [])"
  "libraries (parse_switches av) = []"
  "extra_link_args (parse_switches av) = []"
  "extra_compile_args (parse_switches av) = []"
  by (simp_all add: parse_switches_def Let_def case_prod_beta take_switch_fst take_switch_snd)

lemma jack_step_eq:
  "jack_step env st =
     (if jack st \<and> find_library env ''jack'' \<and> probe_raises env then Inl (probe_error env)
      else Inr (st\<lparr>define_macros := define_macros st @ (if jack st then jack_macros env else []),
                   libraries := libraries st @ (if jack st then jack_libs env else [])\<rparr>))"
  by (simp add: jack_step_def check_for_jack_eq jack_macros_def jack_libs_def
      del: check_for_jack.simps)

lemma startswith_Cons: "startswith s (c # p) \<longleftrightarrow> (\<exists>r. s = c # r \<and> startswith r p)"
  by (cases s) (auto simp: startswith_def)

lemma linux_not_darwin: "startswith s ''linux'' \<Longrightarrow> \<not> startswith s ''darwin''"
  by (auto simp: startswith_Cons)

lemma linux_not_win: "startswith s ''linux'' \<Longrightarrow> \<not> startswith s ''win''"
  by (auto simp: startswith_Cons)

lemma darwin_not_win: "startswith s ''darwin'' \<Longrightarrow> \<not> startswith s ''win''"
  by (auto simp: startswith_Cons)

lemma setup_config_aborts:
  "(\<exists>e. setup_config env = Inl e) \<longleftrightarrow> script_aborts env"
  by (auto simp: setup_config_def platform_config_def jack_step_eq parse_switches_fields
        script_aborts_def Let_def dest: linux_not_darwin split: if_splits)

lemma setup_config_macros:
  "setup_config env = Inr st \<Longrightarrow> define_macros st = expected_macros env"
  by (auto simp: setup_config_def platform_config_def jack_step_eq parse_switches_fields
        expected_macros_def Let_def
      dest: linux_not_darwin linux_not_win darwin_not_win split: if_splits)

lemma setup_config_libraries:
  "setup_config env = Inr st \<Longrightarrow> libraries st = expected_libraries env"
  by (auto simp: setup_config_def platform_config_def jack_step_eq parse_switches_fields
        expected_libraries_def Let_def
      dest: linux_not_darwin linux_not_win darwin_not_win split: if_splits)

lemma setup_config_link_args:
  "setup_config env = Inr st \<Longrightarrow> extra_link_args st = expected_link_args env"
  by (auto simp: setup_config_def platform_config_def jack_step_eq parse_switches_fields
        expected_link_args_def Let_def
      dest: linux_not_darwin linux_not_win darwin_not_win split: if_splits)

lemma alsa_macro_expected:
  "(''__LINUX_ALSA__'', None) \<in> set (expected_macros env) \<longleftrightarrow>
   ''--no-alsa'' \<notin> set (sys_argv env) \<and> startswith (sys_platform env) ''linux''
   \<and> find_library env ''asound''"
  by (auto simp: expected_macros_def jack_macros_def)

lemma jack_macro_expected:
  "(''__UNIX_JACK__'', None) \<in> set (expected_macros env) \<longleftrightarrow>
   ''--no-jack'' \<notin> set (sys_argv env)
   \<and> (startswith (sys_platform env) ''linux'' \<or> startswith (sys_platform env) ''darwin'')
   \<and> find_library env ''jack''"
  by (auto simp: expected_macros_def jack_macros_def)

lemma coremidi_macro_expected:
  "(''__MACOSX_CORE__'', None) \<in> set (expected_macros env) \<longleftrightarrow>
   ''--no-coremidi'' \<notin> set (sys_argv env) \<and> startswith (sys_platform env) ''darwin''"
  by (auto simp: expected_macros_def jack_macros_def)

lemma winmm_macro_expected:
  "(''__WINDOWS_MM__'', None) \<in> set (expected_macros env) \<longleftrightarrow>
   ''--no-winmm'' \<notin> set (sys_argv env) \<and> startswith (sys_platform env) ''win''"
  by (auto simp: expected_macros_def jack_macros_def)

lemma silence_macro_expected:
  "(''__RTMIDI_SILENCE_WARNINGS__'', None) \<in> set (expected_macros env) \<longleftrightarrow>
   ''--no-suppress-warnings'' \<notin> set (sys_argv env)"
  by (auto simp: expected_macros_def jack_macros_def)

lemma asound_expected:
  "''asound'' \<in> set (expected_libraries env) \<longleftrightarrow>
   ''--no-alsa'' \<notin> set (sys_argv env) \<and> startswith (sys_platform env) ''linux''
   \<and> find_library env ''asound''"
  by (auto simp: expected_libraries_def jack_libs_def)

lemma jack_lib_expected:
  "''jack'' \<in> set (expected_libraries env) \<longleftrightarrow>
   ''--no-jack'' \<notin> set (sys_argv env)
   \<and> (startswith (sys_platform env) ''linux'' \<or> startswith (sys_platform env) ''darwin'')
   \<and> find_library env ''jack''"
  by (auto simp: expected_libraries_def jack_libs_def)

lemma winmm_lib_expected:
  "''winmm'' \<in> set (expected_libraries env) \<longleftrightarrow>
   ''--no-winmm'' \<notin> set (sys_argv env) \<and> startswith (sys_platform env) ''win''"
  by (auto simp: expected_libraries_def jack_libs_def)

lemma coremidi_framework_expected:
  "''CoreMIDI'' \<in> set (expected_link_args env) \<longleftrightarrow>
   ''--no-coremidi'' \<notin> set (sys_argv env) \<and> startswith (sys_platform env) ''darwin''"
  by (auto simp: expected_link_args_def)


subsection \<open>Concrete runs\<close>

lemma parse_min_versions:
  "parse ''0.125.0'' = Inr JACK1_MIN_VERSION"
  "parse ''1.9.11'' = Inr JACK2_MIN_VERSION"
  by (simp_all add: parse_def is_digit_def int_of_digits_def opt_patch_def opt_prerelease_def
      at_end_def JACK1_MIN_VERSION_def JACK2_MIN_VERSION_def)

lemma setup_config_linux_jack2_env:
  "setup_config linux_jack2_env =
     Inr \<lparr> define_macros =
             [(''__RTMIDI_SILENCE_WARNINGS__'', None), (''__UNIX_JACK__'', None),
              (''JACK_HAS_PORT_RENAME'', None)],
           libraries = [''jack'', ''pthread''],
           extra_link_args = [],
           extra_compile_args = [],
           alsa = False, coremidi = True, jack = True, winmm = True,
           argv = [''setup.py'', ''build''] \<rparr>"
  by (simp add: linux_jack2_env_def setup_config_def platform_config_def parse_switches_def
      take_switch_def startswith_def jack_step_def StrictVersion_init_def
      parse_1_9_12 [simplified] version_ge_def cmp_version_def JACK1_MIN_VERSION_def JACK2_MIN_VERSION_def)

lemma setup_config_linux_no_pthread_env:
  "setup_config linux_no_pthread_env = Inl SystemExit"
  by (simp add: linux_no_pthread_env_def setup_config_def platform_config_def
      parse_switches_def take_switch_def startswith_def jack_step_def)

lemma setup_config_darwin_no_pkg_config_env:
  "setup_config darwin_no_pkg_config_env = Inl OSError"
  by (simp add: darwin_no_pkg_config_env_def setup_config_def platform_config_def
      parse_switches_def take_switch_def startswith_def jack_step_def)

lemma has_port_rename_examples:
  "has_port_rename (env\<lparr>pkg_config := Inr (''0.125.0'' @ [CHR 0x0A])\<rparr>)"
  "has_port_rename (env\<lparr>pkg_config := Inr ''1.9.11''\<rparr>)"
  "has_port_rename (env\<lparr>pkg_config := Inr ''0.126.0b1''\<rparr>)"
  "\<not> has_port_rename (env\<lparr>pkg_config := Inr ''0.124.1''\<rparr>)"
  "\<not> has_port_rename (env\<lparr>pkg_config := Inr ''0.125.0a1''\<rparr>)"
  "\<not> has_port_rename (env\<lparr>pkg_config := Inr ''1.9.10''\<rparr>)"
  "\<not> has_port_rename (env\<lparr>pkg_config := Inr ''2.0.0''\<rparr>)"
  "\<not> has_port_rename (env\<lparr>pkg_config := Inr ''1.9.12-rc1''\<rparr>)"
  "\<not> has_port_rename (env\<lparr>pkg_config := Inl CalledProcessError\<rparr>)"
  by (simp_all add: has_port_rename_def parse_def is_digit_def int_of_digits_def
      opt_patch_def opt_prerelease_def at_end_def version_ge_def cmp_version_def
      JACK1_MIN_VERSION_def JACK2_MIN_VERSION_def)

text \<open>
  C7, amended. The script stops before the extension is built exactly on the inputs of
  \<open>script_aborts\<close>. Whenever it reaches the extension, each backend's macro and library
  (for CoreMIDI, the framework among the link arguments) are in the extension's lists if
  and only if the backend's switch is absent from \<open>sys.argv\<close>, the platform is the
  backend's and, for ALSA and JACK, \<open>find_library\<close> finds the library; CoreMIDI and
  WinMM have no library probe. In particular a switch that is present keeps macro and
  library out on every platform.
\<close>

theorem backend_switches_in_extension:
  "((\<exists>e. setup_config env = Inl e) \<longleftrightarrow> script_aborts env)
   \<and> (setup_config env = Inr st \<longrightarrow>
        ((''__LINUX_ALSA__'', None) \<in> set (define_macros st) \<longleftrightarrow>
           ''--no-alsa'' \<notin> set (sys_argv env) \<and> startswith (sys_platform env) ''linux''
           \<and> find_library env ''asound'')
        \<and> (''asound'' \<in> set (libraries st) \<longleftrightarrow>
           ''--no-alsa'' \<notin> set (sys_argv env) \<and> startswith (sys_platform env) ''linux''
           \<and> find_library env ''asound'')
        \<and> ((''__UNIX_JACK__'', None) \<in> set (define_macros st) \<longleftrightarrow>
           ''--no-jack'' \<notin> set (sys_argv env)
           \<and> (startswith (sys_platform env) ''linux'' \<or> startswith (sys_platform env) ''darwin'')
           \<and> find_library env ''jack'')
        \<and> (''jack'' \<in> set (libraries st) \<longleftrightarrow>
           ''--no-jack'' \<notin> set (sys_argv env)
           \<and> (startswith (sys_platform env) ''linux'' \<or> startswith (sys_platform env) ''darwin'')
           \<and> find_library env ''jack'')
        \<and> ((''__MACOSX_CORE__'', None) \<in> set (define_macros st) \<longleftrightarrow>
           ''--no-coremidi'' \<notin> set (sys_argv env) \<and> startswith (sys_platform env) ''darwin'')
        \<and> (''CoreMIDI'' \<in> set (extra_link_args st) \<longleftrightarrow>
           ''--no-coremidi'' \<notin> set (sys_argv env) \<and> startswith (sys_platform env) ''darwin'')
        \<and> ((''__WINDOWS_MM__'', None) \<in> set (define_macros st) \<longleftrightarrow>
           ''--no-winmm'' \<notin> set (sys_argv env) \<and> startswith (sys_platform env) ''win'')
        \<and> (''winmm'' \<in> set (libraries st) \<longleftrightarrow>
           ''--no-winmm'' \<notin> set (sys_argv env) \<and> startswith (sys_platform env) ''win''))"
proof (intro conjI impI)
  show "(\<exists>e. setup_config env = Inl e) \<longleftrightarrow> script_aborts env"
    by (rule setup_config_aborts)
next
  assume c: "setup_config env = Inr st"
  note m = setup_config_macros [OF c] and l = setup_config_libraries [OF c]
    and a = setup_config_link_args [OF c]
  show "(''__LINUX_ALSA__'', None) \<in> set (define_macros st) \<longleftrightarrow>
           ''--no-alsa'' \<notin> set (sys_argv env) \<and> startswith (sys_platform env) ''linux''
           \<and> find_library env ''asound''"
    by (simp only: m alsa_macro_expected)
  show "''asound'' \<in> set (libraries st) \<longleftrightarrow>
           ''--no-alsa'' \<notin> set (sys_argv env) \<and> startswith (sys_platform env) ''linux''
           \<and> find_library env ''asound''"
    by (simp only: l asound_expected)
  show "(''__UNIX_JACK__'', None) \<in> set (define_macros st) \<longleftrightarrow>
           ''--no-jack'' \<notin> set (sys_argv env)
           \<and> (startswith (sys_platform env) ''linux'' \<or> startswith (sys_platform env) ''darwin'')
           \<and> find_library env ''jack''"
    by (simp only: m jack_macro_expected)
  show "''jack'' \<in> set (libraries st) \<longleftrightarrow>
           ''--no-jack'' \<notin> set (sys_argv env)
           \<and> (startswith (sys_platform env) ''linux'' \<or> startswith (sys_platform env) ''darwin'')
           \<and> find_library env ''jack''"
    by (simp only: l jack_lib_expected)
  show "(''__MACOSX_CORE__'', None) \<in> set (define_macros st) \<longleftrightarrow>
           ''--no-coremidi'' \<notin> set (sys_argv env) \<and> startswith (sys_platform env) ''darwin''"
    by (simp only: m coremidi_macro_expected)
  show "''CoreMIDI'' \<in> set (extra_link_args st) \<longleftrightarrow>
           ''--no-coremidi'' \<notin> set (sys_argv env) \<and> startswith (sys_platform env) ''darwin''"
    by (simp only: a coremidi_framework_expected)
  show "(''__WINDOWS_MM__'', None) \<in> set (define_macros st) \<longleftrightarrow>
           ''--no-winmm'' \<notin> set (sys_argv env) \<and> startswith (sys_platform env) ''win''"
    by (simp only: m winmm_macro_expected)
  show "''winmm'' \<in> set (libraries st) \<longleftrightarrow>
           ''--no-winmm'' \<notin> set (sys_argv env) \<and> startswith (sys_platform env) ''win''"
    by (simp only: l winmm_lib_expected)
qed

theorem backend_switches_in_extension_witness:
  "\<exists>st. setup_config linux_jack2_env = Inr st
     \<and> ''--no-alsa'' \<in> set (sys_argv linux_jack2_env)
     \<and> (''__LINUX_ALSA__'', None) \<notin> set (define_macros st)
     \<and> ''asound'' \<notin> set (libraries st)
     \<and> ''--no-jack'' \<notin> set (sys_argv linux_jack2_env)
     \<and> startswith (sys_platform linux_jack2_env) ''linux''
     \<and> find_library linux_jack2_env ''jack''
     \<and> (''__UNIX_JACK__'', None) \<in> set (define_macros st)
     \<and> ''jack'' \<in> set (libraries st)
     \<and> (''__MACOSX_CORE__'', None) \<notin> set (define_macros st)
     \<and> (''__WINDOWS_MM__'', None) \<notin> set (define_macros st)"
proof -
  obtain st where c: "setup_config linux_jack2_env = Inr st"
    using setup_config_linux_jack2_env by blast
  have inputs:
    "''--no-alsa'' \<in> set (sys_argv linux_jack2_env)"
    "''--no-jack'' \<notin> set (sys_argv linux_jack2_env)"
    "startswith (sys_platform linux_jack2_env) ''linux''"
    "\<not> startswith (sys_platform linux_jack2_env) ''darwin''"
    "\<not> startswith (sys_platform linux_jack2_env) ''win''"
    "find_library linux_jack2_env ''jack''"
    by (simp_all add: linux_jack2_env_def startswith_def)
  from backend_switches_in_extension [of linux_jack2_env st] c inputs show ?thesis
    by blast
qed

text \<open>
  C7, as stated, fails where the script stops: on Linux with no switch given and the
  ALSA library found, but without the pthread library, line 216 exits and no extension
  is configured, so the ALSA macro is not added although the switch is absent, the
  platform matches and the library is found. On macOS with the JACK library found and
  pkg-config not runnable, \<open>check_for_jack\<close> raises \<open>OSError\<close> before line 224 and
  the CoreMIDI macro is not added.
\<close>

theorem backend_macro_missing_when_script_stops:
  "''--no-alsa'' \<notin> set (sys_argv linux_no_pthread_env)
   \<and> startswith (sys_platform linux_no_pthread_env) ''linux''
   \<and> find_library linux_no_pthread_env ''asound''
   \<and> setup_config linux_no_pthread_env = Inl SystemExit
   \<and> \<not> (\<exists>st. setup_config linux_no_pthread_env = Inr st
            \<and> (''__LINUX_ALSA__'', None) \<in> set (define_macros st))
   \<and> ''--no-coremidi'' \<notin> set (sys_argv darwin_no_pkg_config_env)
   \<and> startswith (sys_platform darwin_no_pkg_config_env) ''darwin''
   \<and> setup_config darwin_no_pkg_config_env = Inl OSError
   \<and> \<not> (\<exists>st. setup_config darwin_no_pkg_config_env = Inr st
            \<and> (''__MACOSX_CORE__'', None) \<in> set (define_macros st))"
  by (simp add: setup_config_linux_no_pthread_env setup_config_darwin_no_pkg_config_env)
    (simp add: linux_no_pthread_env_def darwin_no_pkg_config_env_def startswith_def)

text \<open>
  C8. After lines 201 to 204 \<open>define_macros\<close> holds \<open>__RTMIDI_SILENCE_WARNINGS__\<close> if
  and only if \<open>--no-suppress-warnings\<close> is absent from \<open>sys.argv\<close>, whatever else
  the command line holds; and the same is true of the macros of every extension the
  script goes on to build. Suppression is the default and the flag turns it off.
\<close>

theorem silence_warnings_macro_default:
  "((''__RTMIDI_SILENCE_WARNINGS__'', None) \<in> set (define_macros (parse_switches av)) \<longleftrightarrow>
      ''--no-suppress-warnings'' \<notin> set av)
   \<and> (setup_config env = Inr st \<longrightarrow>
        ((''__RTMIDI_SILENCE_WARNINGS__'', None) \<in> set (define_macros st) \<longleftrightarrow>
           ''--no-suppress-warnings'' \<notin> set (sys_argv env)))"
proof (intro conjI impI)
  show "(''__RTMIDI_SILENCE_WARNINGS__'', None) \<in> set (define_macros (parse_switches av)) \<longleftrightarrow>
      ''--no-suppress-warnings'' \<notin> set av"
    by (simp add: parse_switches_fields)
next
  assume c: "setup_config env = Inr st"
  show "(''__RTMIDI_SILENCE_WARNINGS__'', None) \<in> set (define_macros st) \<longleftrightarrow>
           ''--no-suppress-warnings'' \<notin> set (sys_argv env)"
    by (simp only: setup_config_macros [OF c] silence_macro_expected)
qed

theorem silence_warnings_macro_default_witness:
  "\<exists>st. setup_config linux_jack2_env = Inr st
     \<and> ''--no-suppress-warnings'' \<notin> set (sys_argv linux_jack2_env)
     \<and> (''__RTMIDI_SILENCE_WARNINGS__'', None) \<in> set (define_macros st)"
proof -
  obtain st where c: "setup_config linux_jack2_env = Inr st"
    using setup_config_linux_jack2_env by blast
  have absent: "''--no-suppress-warnings'' \<notin> set (sys_argv linux_jack2_env)"
    by (simp add: linux_jack2_env_def)
  from silence_warnings_macro_default [of "sys_argv linux_jack2_env" linux_jack2_env st] c absent show ?thesis
    by blast
qed

end
